theory Spec2Isabelle
  imports Main "HOL-Library.Word"
begin

section \<open>faceplate.h: the declarations and the include guard\<close>

text \<open>
  The header \<^verbatim>\<open>avr/faceplate.h\<close> is twelve lines: an include guard, two includes and
  four function prototypes. It is embedded line by line: a C type as a datatype, a
  prototype as a record, a line of the header as a datatype of the preprocessor's
  directives and the declarations between them.
\<close>

datatype ctype = CVoid | CNamed string | CPtr ctype

record cdecl =
  ret_type :: ctype
  decl_name :: string
  params :: "(ctype \<times> string) list"

datatype cpp_line =
    Ifndef string
  | Define string
  | Include_system string
  | Include_local string
  | Declaration cdecl
  | Endif
  | Blank

text \<open>Lines 1 to 12 of the header, in order (element \<open>i\<close> is line \<open>i + 1\<close>).\<close>

definition faceplate_h :: "cpp_line list" where
  "faceplate_h =
    [ Ifndef ''FACEPLATE_H'',
      Define ''FACEPLATE_H'',
      Blank,
      Include_system ''stdint.h'',
      Include_local ''updemu.h'',
      Blank,
      Declaration \<lparr>ret_type = CVoid, decl_name = ''faceplate_spi_init'', params = []\<rparr>,
      Declaration \<lparr>ret_type = CVoid, decl_name = ''faceplate_clear_display'', params = []\<rparr>,
      Declaration \<lparr>ret_type = CVoid, decl_name = ''faceplate_send_upd_command'', params = []\<rparr>,
      Declaration \<lparr>ret_type = CVoid, decl_name = ''faceplate_update_from_upd_if_dirty'',
                   params = [(CPtr (CNamed ''upd_state_t''), ''state'')]\<rparr>,
      Blank,
      Endif ]"

fun declarations_of :: "cpp_line list \<Rightarrow> cdecl list" where
  "declarations_of [] = []"
| "declarations_of (Declaration d # ls) = d # declarations_of ls"
| "declarations_of (l # ls) = declarations_of ls"

subsection \<open>The preprocessor on the header\<close>

text \<open>
  The state of the preprocessor inside one translation unit: the macros defined so far,
  the stack of the conditional groups that are open (the head is the innermost; a group
  is \<open>True\<close> when its lines are kept) and the lines emitted so far. A group opened
  inside a skipped group is skipped. The two headers that \<^verbatim>\<open>faceplate.h\<close> includes are
  not part of the sources: an include of another header is emitted as it stands and is
  not expanded.
\<close>

record cpp_state =
  macros :: "string set"
  conds :: "bool list"
  emitted :: "cpp_line list"

definition cpp_initial :: cpp_state where
  "cpp_initial = \<lparr>macros = {}, conds = [], emitted = []\<rparr>"

fun active :: "cpp_state \<Rightarrow> bool" where
  "active st = (case conds st of [] \<Rightarrow> True | b # bs \<Rightarrow> b)"

fun emit :: "cpp_line \<Rightarrow> cpp_state \<Rightarrow> cpp_state" where
  "emit l st = (if active st then st\<lparr>emitted := emitted st @ [l]\<rparr> else st)"

text \<open>One line. \<^verbatim>\<open>#endif\<close> with no open group is an error (\<open>None\<close>).\<close>

fun cpp_step :: "cpp_line \<Rightarrow> cpp_state \<Rightarrow> cpp_state option" where
  "cpp_step (Ifndef m) st =
     Some (st\<lparr>conds := (active st \<and> m \<notin> macros st) # conds st\<rparr>)"
| "cpp_step (Define m) st =
     Some (if active st then st\<lparr>macros := insert m (macros st)\<rparr> else st)"
| "cpp_step (Include_system h) st = Some (emit (Include_system h) st)"
| "cpp_step (Include_local h) st = Some (emit (Include_local h) st)"
| "cpp_step (Declaration d) st = Some (emit (Declaration d) st)"
| "cpp_step Endif st =
     (case conds st of [] \<Rightarrow> None | b # bs \<Rightarrow> Some (st\<lparr>conds := bs\<rparr>))"
| "cpp_step Blank st = Some st"

fun cpp_lines :: "cpp_line list \<Rightarrow> cpp_state \<Rightarrow> cpp_state option" where
  "cpp_lines [] st = Some st"
| "cpp_lines (l # ls) st =
     (case cpp_step l st of None \<Rightarrow> None | Some st' \<Rightarrow> cpp_lines ls st')"

text \<open>
  Including a file runs its lines; a conditional group left open at the end of the file
  is an error.
\<close>

definition cpp_include :: "cpp_line list \<Rightarrow> cpp_state \<Rightarrow> cpp_state option" where
  "cpp_include file st =
     (case cpp_lines file st of
        None \<Rightarrow> None
      | Some st' \<Rightarrow> if conds st' = conds st then Some st' else None)"

text \<open>\<^verbatim>\<open>#include "faceplate.h"\<close> written \<open>n\<close> times in a row.\<close>

primrec include_faceplate_h_times :: "nat \<Rightarrow> cpp_state \<Rightarrow> cpp_state option" where
  "include_faceplate_h_times 0 st = Some st"
| "include_faceplate_h_times (Suc n) st =
     (case cpp_include faceplate_h st of
        None \<Rightarrow> None
      | Some st' \<Rightarrow> include_faceplate_h_times n st')"

text \<open>What the header emits when its guard lets it through.\<close>

definition faceplate_h_body :: "cpp_line list" where
  "faceplate_h_body = filter (\<lambda>l. l \<noteq> Blank) (butlast (drop 2 faceplate_h))"

section \<open>The faceplate driver behind the prototypes\<close>

text \<open>
  Modelled from the spec: the bodies of \<^verbatim>\<open>faceplate_spi_init\<close>,
  \<^verbatim>\<open>faceplate_send_upd_command\<close> and \<^verbatim>\<open>faceplate_update_from_upd_if_dirty\<close>, and
  the type \<^verbatim>\<open>upd_state_t\<close> (the sources hold only the prototypes of
  \<^verbatim>\<open>faceplate.h\<close>; \<^verbatim>\<open>faceplate.c\<close> and \<^verbatim>\<open>updemu.h\<close> are missing). The
  spec calls \<^verbatim>\<open>upd_state_t\<close> an opaque external structure, so it is the type
  parameter \<open>'u\<close>; the values the driver writes to the SPI registers are not given, so a
  configuration is the type parameter \<open>'c\<close>. The driver's globals are one record: the
  configuration of the SPI peripheral (\<open>None\<close> before any initialisation), the state
  previously transmitted (\<open>None\<close> before any transmission) and the commands put on the
  SPI bus so far, oldest first, each named by the state it was derived from.
  \<^verbatim>\<open>faceplate_clear_display\<close> is left out: the spec does not say what it sends, and
  nothing below depends on it.
\<close>

record ('u, 'c) faceplate =
  spi_config :: "'c option"
  sent_state :: "'u option"
  spi_log :: "'u list"

definition faceplate_reset :: "('u, 'c) faceplate" where
  "faceplate_reset = \<lparr>spi_config = None, sent_state = None, spi_log = []\<rparr>"

text \<open>
  Modelled from the spec: \<^verbatim>\<open>faceplate_spi_init\<close>, "configures the SPI peripheral for
  communication with the faceplate's display controller". The C function has no
  parameter; the configuration it writes is the argument \<open>cfg\<close> here.
\<close>

definition faceplate_spi_init :: "'c \<Rightarrow> ('u, 'c) faceplate \<Rightarrow> ('u, 'c) faceplate" where
  "faceplate_spi_init cfg d = d\<lparr>spi_config := Some cfg\<rparr>"

text \<open>
  Modelled from the spec: \<^verbatim>\<open>faceplate_send_upd_command\<close>, "transmits a formatted
  command derived from current state to the display controller". The C function reads the
  current state from a global; here it is the argument \<open>u\<close>. The framing is not given:
  the log records the state. The state transmitted becomes the previously transmitted
  state.
\<close>

definition faceplate_send_upd_command :: "'u \<Rightarrow> ('u, 'c) faceplate \<Rightarrow> ('u, 'c) faceplate" where
  "faceplate_send_upd_command u d = d\<lparr>sent_state := Some u, spi_log := spi_log d @ [u]\<rparr>"

text \<open>
  Modelled from the spec: \<^verbatim>\<open>faceplate_update_from_upd_if_dirty\<close>, "reads the shared
  state, compares against previously transmitted state (dirty-check), and calls the send
  path only if changed". The pointer argument is passed by value and returned: the first
  component of the result is \<^verbatim>\<open>*state\<close> after the call, the second the driver.
\<close>

definition faceplate_update_from_upd_if_dirty ::
  "'u \<Rightarrow> ('u, 'c) faceplate \<Rightarrow> 'u \<times> ('u, 'c) faceplate" where
  "faceplate_update_from_upd_if_dirty state d =
     (if sent_state d = Some state then (state, d)
      else (state, faceplate_send_upd_command state d))"

text \<open>
  The calls a client can make, and a driver after a sequence of them from reset. The
  state last put on the bus is read off the log, not off the driver's own snapshot.
\<close>

datatype ('u, 'c) faceplate_call = Spi_init 'c | Send_upd_command 'u | Update_if_dirty 'u

fun faceplate_do :: "('u, 'c) faceplate \<Rightarrow> ('u, 'c) faceplate_call \<Rightarrow> ('u, 'c) faceplate" where
  "faceplate_do d (Spi_init cfg) = faceplate_spi_init cfg d"
| "faceplate_do d (Send_upd_command u) = faceplate_send_upd_command u d"
| "faceplate_do d (Update_if_dirty u) = snd (faceplate_update_from_upd_if_dirty u d)"

definition faceplate_run :: "('u, 'c) faceplate_call list \<Rightarrow> ('u, 'c) faceplate" where
  "faceplate_run calls = foldl faceplate_do faceplate_reset calls"

definition last_transmitted :: "('u, 'c) faceplate \<Rightarrow> 'u option" where
  "last_transmitted d = (if spi_log d = [] then None else Some (last (spi_log d)))"

section \<open>The makefile of the kwp1281 tool's firmware\<close>

text \<open>
  A makefile is a list of rules; a rule has a target, its prerequisites and its recipe,
  the command lines that make hands to the shell. A variable of the makefile is a
  constant, and a reference \<^verbatim>\<open>$(VAR)\<close> is the constant's value spliced into the
  text. The working directory is the list \<open>dir\<close> of the names of its files.
\<close>

record rule =
  target :: string
  prereqs :: "string list"
  recipe :: "string list"

text \<open>
  Text is split into words at spaces, as make splits a list of prerequisites; a list
  of words is joined with single spaces, as \<^verbatim>\<open>$(wildcard ...)\<close> returns it. The
  name of the program a command line runs is its first word.
\<close>

fun split_on :: "char \<Rightarrow> string \<Rightarrow> string list" where
  "split_on d [] = [[]]"
| "split_on d (c # cs) =
     (if c = d then [] # split_on d cs
      else (case split_on d cs of [] \<Rightarrow> [[c]] | w # ws \<Rightarrow> (c # w) # ws))"

definition words_of :: "string \<Rightarrow> string list" where
  "words_of s = filter (\<lambda>w. w \<noteq> []) (split_on CHR '' '' s)"

fun unwords :: "string list \<Rightarrow> string" where
  "unwords [] = []"
| "unwords [w] = w"
| "unwords (w # ws) = w @ '' '' @ unwords ws"

definition command_name :: "string \<Rightarrow> string" where
  "command_name line = takeWhile (\<lambda>c. c \<noteq> CHR '' '') line"

text \<open>
  A shell pattern with \<^verbatim>\<open>*\<close> (any run of characters, also none) and literal
  characters otherwise. \<^verbatim>\<open>$(wildcard pat)\<close> gives the names of the directory that
  match; a leading \<^verbatim>\<open>*\<close> does not match a name that starts with a dot.
\<close>

fun glob_match :: "string \<Rightarrow> string \<Rightarrow> bool" where
  "glob_match [] [] = True"
| "glob_match [] (c # cs) = False"
| "glob_match (p # ps) [] = (p = CHR ''*'' \<and> glob_match ps [])"
| "glob_match (p # ps) (c # cs) =
     (if p = CHR ''*'' then glob_match ps (c # cs) \<or> glob_match (p # ps) cs
      else p = c \<and> glob_match ps cs)"

definition hidden :: "string \<Rightarrow> bool" where
  "hidden name = (case name of [] \<Rightarrow> False | c # cs \<Rightarrow> c = CHR ''.'')"

definition wildcard :: "string \<Rightarrow> string list \<Rightarrow> string list" where
  "wildcard pat dir = filter (\<lambda>name. glob_match pat name \<and> \<not> hidden name) dir"

text \<open>Lines 1 to 6: the variables.\<close>

definition PROJECT :: string where
  "PROJECT = ''kwp1281''"

definition SOURCES :: "string list \<Rightarrow> string" where
  "SOURCES dir = unwords (wildcard ''*.c'' dir)"

definition MMCU :: string where
  "MMCU = ''atmega1284''"

definition F_CPU :: string where
  "F_CPU = ''20000000''"

definition ISPFLAGS :: string where
  "ISPFLAGS = ''-c atmelice''"

definition CFLAGS :: string where
  "CFLAGS = ''-mmcu='' @ MMCU @ '' -g -Wall -Os -std=c99 -DF_CPU='' @ F_CPU"

text \<open>Lines 8 to 35: the eight rules, in the order of the file.\<close>

definition kwp1281_Makefile :: "string list \<Rightarrow> rule list" where
  "kwp1281_Makefile dir =
    [ \<lparr>target = PROJECT @ ''.hex'', prereqs = [PROJECT @ ''.elf''],
       recipe = [''avr-objcopy -j .text -j .data -O ihex '' @ PROJECT @ ''.elf '' @ PROJECT @ ''.hex'']\<rparr>,
      \<lparr>target = PROJECT @ ''.elf'', prereqs = words_of (SOURCES dir),
       recipe = [''avr-gcc '' @ CFLAGS @ '' -I. -o '' @ PROJECT @ ''.elf '' @ SOURCES dir]\<rparr>,
      \<lparr>target = ''program'', prereqs = [PROJECT @ ''.hex''],
       recipe =
        [''avrdude '' @ ISPFLAGS @ '' -p '' @ MMCU @
           '' -U lfuse:w:0xF7:m -U hfuse:w:0x92:m -U efuse:w:0xFF:m'',
         ''avrdude '' @ ISPFLAGS @ '' -p '' @ MMCU @ '' -U flash:w:'' @ PROJECT @ ''.hex'']\<rparr>,
      \<lparr>target = ''size'', prereqs = [PROJECT @ ''.elf''],
       recipe = [''avr-size --mcu='' @ MMCU @ '' --format=avr '' @ PROJECT @ ''.elf'']\<rparr>,
      \<lparr>target = ''dump'', prereqs = [PROJECT @ ''.elf''],
       recipe = [''avr-objdump -h -S -I. '' @ PROJECT @ ''.elf'']\<rparr>,
      \<lparr>target = ''clean'', prereqs = [],
       recipe =
        [''find . -depth -name '' @ [CHR 0x27] @ ''*.elf'' @ [CHR 0x27] @ '' -print -delete'',
         ''find . -depth -name '' @ [CHR 0x27] @ ''*.hex'' @ [CHR 0x27] @ '' -print -delete'',
         ''find . -depth -name '' @ [CHR 0x27] @ ''*.o'' @ [CHR 0x27] @ ''   -print -delete'',
         ''find . -depth -name '' @ [CHR 0x27] @ ''*.pyc'' @ [CHR 0x27] @ '' -print -delete'']\<rparr>,
      \<lparr>target = ''arduino_mega'', prereqs = [],
       recipe =
        [''avr-gcc -DF_CPU=16000000 -mmcu=atmega2560 -g -Wall -Os -std=c99 -I. -o '' @
           PROJECT @ ''.elf '' @ SOURCES dir,
         ''avr-objcopy -j .text -j .data -O ihex '' @ PROJECT @ ''.elf '' @ PROJECT @ ''.hex'',
         ''avrdude -cwiring -P /dev/ttyACM0 -D -p atmega2560 -U flash:w:'' @ PROJECT @ ''.hex'']\<rparr>,
      \<lparr>target = ''all'', prereqs = [''clean'', PROJECT @ ''.hex'', ''program''],
       recipe = []\<rparr> ]"

subsection \<open>What make runs for a goal\<close>

text \<open>
  The model is of a build in which no target is up to date (as after \<^verbatim>\<open>clean\<close>) and
  every command succeeds: to make a target, make its prerequisites in order, then run
  its recipe; a target is made once in a run; a name with no rule must be a file of the
  directory. The state is the targets made so far and the command lines run so far, in
  order. The depth of the search is bounded by fuel: a chain of prerequisites longer
  than the makefile has rules is circular.
\<close>

datatype make_error = No_rule string | Too_deep string

type_synonym make_state = "string list \<times> string list"

fun make_each ::
  "(string \<Rightarrow> make_state \<Rightarrow> make_error + make_state) \<Rightarrow> string list \<Rightarrow> make_state
     \<Rightarrow> make_error + make_state" where
  "make_each f [] st = Inr st"
| "make_each f (t # ts) st =
     (case f t st of Inl e \<Rightarrow> Inl e | Inr st' \<Rightarrow> make_each f ts st')"

primrec make_target ::
  "nat \<Rightarrow> rule list \<Rightarrow> string list \<Rightarrow> string \<Rightarrow> make_state \<Rightarrow> make_error + make_state" where
  "make_target 0 rules dir t st = Inl (Too_deep t)"
| "make_target (Suc fuel) rules dir t st =
     (if t \<in> set (fst st) then Inr st
      else case find (\<lambda>r. target r = t) rules of
        None \<Rightarrow> if t \<in> set dir then Inr st else Inl (No_rule t)
      | Some r \<Rightarrow>
          (case make_each (make_target fuel rules dir) (prereqs r) st of
             Inl e \<Rightarrow> Inl e
           | Inr st' \<Rightarrow> Inr (t # fst st', snd st' @ recipe r)))"

text \<open>\<^verbatim>\<open>make goal\<close>: the command lines run, in order. Plain \<^verbatim>\<open>make\<close> makes the
  target of the first rule.\<close>

definition make :: "rule list \<Rightarrow> string list \<Rightarrow> string \<Rightarrow> make_error + string list" where
  "make rules dir goal =
     (case make_target (Suc (length rules)) rules dir goal ([], []) of
        Inl e \<Rightarrow> Inl e
      | Inr st \<Rightarrow> Inr (snd st))"

definition default_goal :: "rule list \<Rightarrow> string" where
  "default_goal rules = (case rules of [] \<Rightarrow> [] | r # rs \<Rightarrow> target r)"

text \<open>The binaries of the toolchain.\<close>

definition toolchain :: "string list" where
  "toolchain = [''avr-gcc'', ''avr-objcopy'', ''avr-size'', ''avr-objdump'', ''avrdude'', ''find'']"

section \<open>The two makefiles that check a disassembly\<close>

text \<open>
  Two makefiles assemble a disassembly listing to \<^verbatim>\<open>out.bin\<close> and compare its SHA-1
  digest with a recorded one: the first for \<^verbatim>\<open>pu1666a_mainmcu.asm\<close>, the second for
  \<^verbatim>\<open>software23.asm\<close>. Their \<^verbatim>\<open>diff\<close> and \<^verbatim>\<open>clean\<close> recipes are embedded as
  the shell commands they run, over the files of the working directory: a map from a
  file's name to its content. A command takes the files and gives its exit status and
  the files afterwards; a process of a pipeline takes the files and its standard input
  and gives its exit status and its standard output.
\<close>

type_synonym files = "string \<rightharpoonup> string"

type_synonym command = "files \<Rightarrow> nat \<times> files"

type_synonym process = "files \<Rightarrow> string \<Rightarrow> nat \<times> string"

text \<open>Make runs the lines of a recipe in order and stops at the first that fails.\<close>

fun run_recipe :: "command list \<Rightarrow> files \<Rightarrow> nat \<times> files" where
  "run_recipe [] fs = (0, fs)"
| "run_recipe (c # cs) fs =
     (case c fs of (status, fs') \<Rightarrow> if status = 0 then run_recipe cs fs' else (status, fs'))"

subsection \<open>The tools the recipes call\<close>

text \<open>
  \<^verbatim>\<open>p | q\<close>: the output of \<open>p\<close> is the input of \<open>q\<close>, and the status is that of
  \<open>q\<close>. \<^verbatim>\<open>p > name\<close>: the shell truncates the file before \<open>p\<close> starts, and the
  output of \<open>p\<close> becomes its content.
\<close>

definition pipe :: "process \<Rightarrow> process \<Rightarrow> process" where
  "pipe p q fs input = (case p fs input of (status, out) \<Rightarrow> q fs out)"

definition redirect :: "process \<Rightarrow> string \<Rightarrow> command" where
  "redirect p name fs =
     (case p (fs(name \<mapsto> [])) [] of (status, out) \<Rightarrow> (status, fs(name \<mapsto> out)))"

definition newline :: char where
  "newline = CHR 0x0A"

text \<open>
  \<^verbatim>\<open>openssl sha1 name\<close> prints \<^verbatim>\<open>SHA1(name)= \<close>, the digest of the file in
  lowercase hexadecimal and a newline. The digest function itself is the parameter
  \<open>sha1\<close>, from a file's content to the bytes of its digest.
\<close>

definition hex_digit :: "nat \<Rightarrow> char" where
  "hex_digit n = ''0123456789abcdef'' ! (n mod 16)"

definition hex_byte :: "8 word \<Rightarrow> string" where
  "hex_byte b = [hex_digit (unat b div 16), hex_digit (unat b mod 16)]"

definition hex_of :: "8 word list \<Rightarrow> string" where
  "hex_of d = concat (map hex_byte d)"

definition openssl_sha1 :: "(string \<Rightarrow> 8 word list) \<Rightarrow> string \<Rightarrow> process" where
  "openssl_sha1 sha1 name fs input =
     (case fs name of
        None \<Rightarrow> (1, [])
      | Some content \<Rightarrow> (0, ''SHA1('' @ name @ '')= '' @ hex_of (sha1 content) @ [newline]))"

text \<open>
  \<^verbatim>\<open>cut -d d -f k\<close>: of every line of the input, the \<open>k\<close>-th field between the
  delimiters (empty when the line has fewer fields); a line without the delimiter is
  printed whole.
\<close>

definition lines_of :: "string \<Rightarrow> string list" where
  "lines_of s =
     (case rev (split_on newline s) of
        [] \<Rightarrow> []
      | l # ls \<Rightarrow> if l = [] then rev ls else rev (l # ls))"

definition cut_field :: "char \<Rightarrow> nat \<Rightarrow> string \<Rightarrow> string" where
  "cut_field d k line =
     (let fields = split_on d line
      in if length fields \<le> 1 then line
         else if 0 < k \<and> k \<le> length fields then fields ! (k - 1)
         else [])"

definition cut_d_f :: "char \<Rightarrow> nat \<Rightarrow> process" where
  "cut_d_f d k fs input = (0, concat (map (\<lambda>l. cut_field d k l @ [newline]) (lines_of input)))"

text \<open>\<^verbatim>\<open>diff a b\<close>: status 0 when the two files are equal, 1 when they differ, 2 when
  one is missing.\<close>

definition diff_files :: "string \<Rightarrow> string \<Rightarrow> command" where
  "diff_files a b fs =
     (case (fs a, fs b) of
        (Some x, Some y) \<Rightarrow> (if x = y then 0 else 1, fs)
      | _ \<Rightarrow> (2, fs))"

text \<open>
  \<^verbatim>\<open>rm -f pat\<close>: the shell expands the pattern to the names of the directory that
  match it, and \<^verbatim>\<open>rm -f\<close> removes each of them and succeeds also when there is none.
\<close>

definition rm_f :: "string \<Rightarrow> command" where
  "rm_f pat fs = (0, \<lambda>name. if glob_match pat name then None else fs name)"

subsection \<open>The recipes\<close>

text \<open>
  The first makefile, lines 1 to 3 and 13 to 14:
  \<^verbatim>\<open>openssl sha1 out.bin | cut -d ' ' -f 2 > out.sha1\<close>,
  \<^verbatim>\<open>diff pu1666a_mainmcu.sha1 out.sha1\<close>, and \<^verbatim>\<open>rm -f out.*\<close>.
\<close>

definition mainmcu_diff :: "(string \<Rightarrow> 8 word list) \<Rightarrow> command list" where
  "mainmcu_diff sha1 =
    [ redirect (pipe (openssl_sha1 sha1 ''out.bin'') (cut_d_f CHR '' '' 2)) ''out.sha1'',
      diff_files ''pu1666a_mainmcu.sha1'' ''out.sha1'' ]"

definition mainmcu_clean :: "command list" where
  "mainmcu_clean = [rm_f ''out.*'']"

text \<open>
  The second makefile: its \<^verbatim>\<open>diff\<close> recipe first runs
  \<^verbatim>\<open>python checksum.py out.bin\<close>. The script is not among the sources: it is the
  parameter \<open>checksum_py\<close>, any command.
\<close>

definition software23_diff :: "(string \<Rightarrow> 8 word list) \<Rightarrow> command \<Rightarrow> command list" where
  "software23_diff sha1 checksum_py =
    [ checksum_py,
      redirect (pipe (openssl_sha1 sha1 ''out.bin'') (cut_d_f CHR '' '' 2)) ''out.sha1'',
      diff_files ''software23.sha1'' ''out.sha1'' ]"

definition software23_clean :: "command list" where
  "software23_clean = [rm_f ''out.*'']"

text \<open>What the pipeline of the \<^verbatim>\<open>diff\<close> recipes writes for a digest: a file that holds
  this text records the digest.\<close>

definition digest_text :: "8 word list \<Rightarrow> string" where
  "digest_text d = hex_of d @ [newline]"

text \<open>
  Values to run the recipes on: a three-byte stand-in for SHA-1 (the length of the
  content, then two fixed bytes), a checksum script that passes, one that fails, and a
  directory with an empty \<^verbatim>\<open>out.bin\<close> next to the sources and the stand-in's
  digests of the empty file.
\<close>

definition toy_sha1 :: "string \<Rightarrow> 8 word list" where
  "toy_sha1 content = [of_nat (length content), 0xab, 0xcd]"

definition checksum_passes :: command where
  "checksum_passes fs = (0, fs)"

definition checksum_fails :: command where
  "checksum_fails fs = (1, fs)"

definition example_files :: files where
  "example_files =
     [''out.bin'' \<mapsto> [],
      ''out.lst'' \<mapsto> ''listing'',
      ''pu1666a_mainmcu.asm'' \<mapsto> ''source'',
      ''software23.asm'' \<mapsto> ''source'',
      ''pu1666a_mainmcu.sha1'' \<mapsto> ''00abcd'' @ [newline],
      ''software23.sha1'' \<mapsto> ''00abcd'' @ [newline]]"

section \<open>Results for faceplate.h\<close>

lemma declarations_of_append:
  "declarations_of (xs @ ys) = declarations_of xs @ declarations_of ys"
  by (induction xs rule: declarations_of.induct) simp_all

lemma faceplate_h_first:
  "active st \<Longrightarrow> ''FACEPLATE_H'' \<notin> macros st \<Longrightarrow>
   cpp_include faceplate_h st =
     Some (st\<lparr>macros := insert ''FACEPLATE_H'' (macros st),
              emitted := emitted st @ faceplate_h_body\<rparr>)"
  by (cases "conds st") (simp_all add: cpp_include_def faceplate_h_def faceplate_h_body_def)

lemma faceplate_h_guarded:
  "''FACEPLATE_H'' \<in> macros st \<Longrightarrow> cpp_include faceplate_h st = Some st"
  by (cases "conds st") (simp_all add: cpp_include_def faceplate_h_def)

lemma faceplate_h_skipped:
  "\<not> active st \<Longrightarrow> cpp_include faceplate_h st = Some st"
  by (cases "conds st") (simp_all add: cpp_include_def faceplate_h_def)

lemma faceplate_h_again:
  "''FACEPLATE_H'' \<in> macros st \<Longrightarrow> include_faceplate_h_times n st = Some st"
  by (induction n) (simp_all add: faceplate_h_guarded)

lemma faceplate_h_skipped_again:
  "\<not> active st \<Longrightarrow> include_faceplate_h_times n st = Some st"
  by (induction n) (simp_all add: faceplate_h_skipped)

text \<open>
  C5: each of the four functions of the driver's public contract is declared with the
  return type \<^verbatim>\<open>void\<close>: the header declares exactly these four names, in this order,
  and nothing is returned to the caller.
\<close>

theorem faceplate_h_all_void:
  "map (\<lambda>d. (decl_name d, ret_type d)) (declarations_of faceplate_h) =
     [ (''faceplate_spi_init'', CVoid),
       (''faceplate_clear_display'', CVoid),
       (''faceplate_send_upd_command'', CVoid),
       (''faceplate_update_from_upd_if_dirty'', CVoid) ]"
  by (simp add: faceplate_h_def)

theorem faceplate_h_all_void_witness:
  "ret_type (declarations_of faceplate_h ! 3) = CVoid \<and>
   decl_name (declarations_of faceplate_h ! 3) = ''faceplate_update_from_upd_if_dirty'' \<and>
   length (declarations_of faceplate_h) = 4"
  using faceplate_h_all_void
  by (simp add: faceplate_h_def)

lemma faceplate_h_repeated:
  "include_faceplate_h_times (Suc n) st = cpp_include faceplate_h st"
proof (cases "active st \<and> ''FACEPLATE_H'' \<notin> macros st")
  case True
  let ?st1 = "st\<lparr>macros := insert ''FACEPLATE_H'' (macros st),
                 emitted := emitted st @ faceplate_h_body\<rparr>"
  from True have once: "cpp_include faceplate_h st = Some ?st1"
    by (simp add: faceplate_h_first)
  have "''FACEPLATE_H'' \<in> macros ?st1" by simp
  then have "include_faceplate_h_times n ?st1 = Some ?st1" by (rule faceplate_h_again)
  with once show ?thesis by simp
next
  case False
  then consider "\<not> active st" | "''FACEPLATE_H'' \<in> macros st" by blast
  then show ?thesis
  proof cases
    case 1
    then show ?thesis by (simp add: faceplate_h_skipped faceplate_h_skipped_again)
  next
    case 2
    then show ?thesis by (simp add: faceplate_h_guarded faceplate_h_again)
  qed
qed

text \<open>
  C10: including \<^verbatim>\<open>faceplate.h\<close> once or any greater number of times in a row gives
  the same preprocessor state as including it once, from any state. Where the guard
  macro \<^verbatim>\<open>FACEPLATE_H\<close> is not yet defined and the text is not inside a skipped
  conditional group, the four declarations are emitted once, and every further
  inclusion leaves the state as it is.
\<close>

theorem faceplate_h_include_guard:
  "include_faceplate_h_times (Suc n) st = cpp_include faceplate_h st \<and>
   (''FACEPLATE_H'' \<notin> macros st \<and> active st \<longrightarrow>
     (\<exists>st'. include_faceplate_h_times (Suc n) st = Some st' \<and>
        declarations_of (emitted st') =
          declarations_of (emitted st) @ declarations_of faceplate_h \<and>
        include_faceplate_h_times k st' = Some st'))"
proof (intro conjI impI)
  show "include_faceplate_h_times (Suc n) st = cpp_include faceplate_h st"
    by (rule faceplate_h_repeated)
next
  assume fresh: "''FACEPLATE_H'' \<notin> macros st \<and> active st"
  let ?st1 = "st\<lparr>macros := insert ''FACEPLATE_H'' (macros st),
                 emitted := emitted st @ faceplate_h_body\<rparr>"
  from fresh have once: "cpp_include faceplate_h st = Some ?st1"
    by (simp add: faceplate_h_first)
  have "''FACEPLATE_H'' \<in> macros ?st1" by simp
  then have rest: "include_faceplate_h_times m ?st1 = Some ?st1" for m
    by (rule faceplate_h_again)
  have decls: "declarations_of (emitted ?st1) =
          declarations_of (emitted st) @ declarations_of faceplate_h"
    by (simp add: declarations_of_append faceplate_h_body_def faceplate_h_def)
  show "\<exists>st'. include_faceplate_h_times (Suc n) st = Some st' \<and>
        declarations_of (emitted st') =
          declarations_of (emitted st) @ declarations_of faceplate_h \<and>
        include_faceplate_h_times k st' = Some st'"
    using rest decls by (simp add: once)
qed

theorem faceplate_h_include_guard_witness:
  "include_faceplate_h_times 3 cpp_initial = cpp_include faceplate_h cpp_initial \<and>
   map decl_name (declarations_of (emitted (the (include_faceplate_h_times 3 cpp_initial)))) =
     [''faceplate_spi_init'', ''faceplate_clear_display'', ''faceplate_send_upd_command'',
      ''faceplate_update_from_upd_if_dirty'']"
proof -
  have fresh: "''FACEPLATE_H'' \<notin> macros cpp_initial \<and> active cpp_initial"
    by (simp add: cpp_initial_def)
  have n: "(3::nat) = Suc 2" by simp
  from faceplate_h_include_guard [where st = cpp_initial and n = 2 and k = 0] fresh
  obtain st' where eq: "include_faceplate_h_times (Suc 2) cpp_initial = cpp_include faceplate_h cpp_initial"
    and run: "include_faceplate_h_times (Suc 2) cpp_initial = Some st'"
    and decls: "declarations_of (emitted st') =
                  declarations_of (emitted cpp_initial) @ declarations_of faceplate_h"
    by blast
  have "declarations_of (emitted cpp_initial) = []" by (simp add: cpp_initial_def)
  with decls have "map decl_name (declarations_of (emitted st')) =
     [''faceplate_spi_init'', ''faceplate_clear_display'', ''faceplate_send_upd_command'',
      ''faceplate_update_from_upd_if_dirty'']"
    by (simp add: faceplate_h_def)
  with eq run show ?thesis unfolding n by simp
qed

section \<open>Results for the faceplate driver\<close>

lemma faceplate_do_snapshot:
  "last_transmitted d = sent_state d \<Longrightarrow>
   last_transmitted (faceplate_do d c) = sent_state (faceplate_do d c)"
  by (cases c)
    (auto simp add: last_transmitted_def faceplate_spi_init_def faceplate_send_upd_command_def
      faceplate_update_from_upd_if_dirty_def split: if_splits)

lemma foldl_faceplate_do_snapshot:
  "last_transmitted d = sent_state d \<Longrightarrow>
   last_transmitted (foldl faceplate_do d cs) = sent_state (foldl faceplate_do d cs)"
  by (induction cs arbitrary: d) (simp_all add: faceplate_do_snapshot)

lemma faceplate_run_snapshot:
  "last_transmitted (faceplate_run cs) = sent_state (faceplate_run cs)"
  unfolding faceplate_run_def
  by (rule foldl_faceplate_do_snapshot) (simp add: last_transmitted_def faceplate_reset_def)

text \<open>
  C1: after any sequence of calls from reset, \<^verbatim>\<open>faceplate_update_from_upd_if_dirty\<close>
  puts one command on the SPI bus when the incoming state differs from the state last
  transmitted (or nothing was transmitted yet), and puts nothing on the bus and leaves
  the driver as it was when the incoming state equals the state last transmitted.
\<close>

theorem update_if_dirty_sends_iff_changed:
  "spi_log (snd (faceplate_update_from_upd_if_dirty state (faceplate_run calls))) =
     spi_log (faceplate_run calls) @
       (if last_transmitted (faceplate_run calls) = Some state then [] else [state]) \<and>
   (spi_log (snd (faceplate_update_from_upd_if_dirty state (faceplate_run calls))) \<noteq>
      spi_log (faceplate_run calls)) =
     (last_transmitted (faceplate_run calls) \<noteq> Some state) \<and>
   (if last_transmitted (faceplate_run calls) = Some state
    then snd (faceplate_update_from_upd_if_dirty state (faceplate_run calls)) = faceplate_run calls
    else snd (faceplate_update_from_upd_if_dirty state (faceplate_run calls)) =
           faceplate_send_upd_command state (faceplate_run calls))"
  by (simp add: faceplate_run_snapshot faceplate_update_from_upd_if_dirty_def
      faceplate_send_upd_command_def)

theorem update_if_dirty_sends_iff_changed_witness:
  "spi_log (snd (faceplate_update_from_upd_if_dirty (7::nat)
      (faceplate_run [Spi_init (0::nat), Update_if_dirty 5, Update_if_dirty 5, Update_if_dirty 7])))
     = [5, 7] \<and>
   spi_log (snd (faceplate_update_from_upd_if_dirty (8::nat)
      (faceplate_run [Spi_init (0::nat), Update_if_dirty 5, Update_if_dirty 5, Update_if_dirty 7])))
     = [5, 7, 8]"
  using update_if_dirty_sends_iff_changed
      [of "7::nat" "[Spi_init (0::nat), Update_if_dirty 5, Update_if_dirty 5, Update_if_dirty 7]"]
    update_if_dirty_sends_iff_changed
      [of "8::nat" "[Spi_init (0::nat), Update_if_dirty 5, Update_if_dirty 5, Update_if_dirty 7]"]
  by (simp add: faceplate_run_def faceplate_reset_def last_transmitted_def
      faceplate_spi_init_def faceplate_update_from_upd_if_dirty_def
      faceplate_send_upd_command_def)

text \<open>
  C2: two calls of \<^verbatim>\<open>faceplate_update_from_upd_if_dirty\<close> in succession with the same
  state, from any driver state: the second call transmits nothing, and the two calls
  together put at most one command on the SPI bus.
\<close>

theorem update_if_dirty_twice:
  "spi_log (snd (faceplate_update_from_upd_if_dirty state
       (snd (faceplate_update_from_upd_if_dirty state d)))) =
     spi_log (snd (faceplate_update_from_upd_if_dirty state d)) \<and>
   length (spi_log (snd (faceplate_update_from_upd_if_dirty state
       (snd (faceplate_update_from_upd_if_dirty state d))))) \<le> Suc (length (spi_log d))"
  by (simp add: faceplate_update_from_upd_if_dirty_def faceplate_send_upd_command_def)

theorem update_if_dirty_twice_witness:
  "spi_log (snd (faceplate_update_from_upd_if_dirty (5::nat)
       (snd (faceplate_update_from_upd_if_dirty 5 (faceplate_reset :: (nat, nat) faceplate))))) = [5]"
  using update_if_dirty_twice [of "5::nat" "faceplate_reset :: (nat, nat) faceplate"]
  by (simp add: faceplate_update_from_upd_if_dirty_def faceplate_send_upd_command_def
      faceplate_reset_def)

text \<open>
  C3: \<^verbatim>\<open>faceplate_update_from_upd_if_dirty\<close> only reads \<^verbatim>\<open>*state\<close>: the state after
  the call is the state before it.
\<close>

theorem update_if_dirty_reads_only:
  "fst (faceplate_update_from_upd_if_dirty state d) = state"
  by (simp add: faceplate_update_from_upd_if_dirty_def)

theorem update_if_dirty_reads_only_witness:
  "fst (faceplate_update_from_upd_if_dirty (5::nat) (faceplate_reset :: (nat, nat) faceplate)) = 5 \<and>
   fst (faceplate_update_from_upd_if_dirty (5::nat)
     (snd (faceplate_update_from_upd_if_dirty 5 (faceplate_reset :: (nat, nat) faceplate)))) = 5"
  using update_if_dirty_reads_only [of "5::nat" "faceplate_reset :: (nat, nat) faceplate"]
    update_if_dirty_reads_only [of "5::nat"
      "snd (faceplate_update_from_upd_if_dirty 5 (faceplate_reset :: (nat, nat) faceplate))"]
  by simp

text \<open>
  C4: \<^verbatim>\<open>faceplate_spi_init\<close> is idempotent: called twice in succession it leaves the
  driver, and so the configuration of the SPI peripheral, as one call does.
\<close>

theorem faceplate_spi_init_idempotent:
  "faceplate_spi_init cfg (faceplate_spi_init cfg d) = faceplate_spi_init cfg d"
  by (simp add: faceplate_spi_init_def)

theorem faceplate_spi_init_idempotent_witness:
  "faceplate_spi_init (1::nat) (faceplate_spi_init 1 (faceplate_reset :: (nat, nat) faceplate)) =
     \<lparr>spi_config = Some 1, sent_state = None, spi_log = []\<rparr>"
  using faceplate_spi_init_idempotent [of "1::nat" "faceplate_reset :: (nat, nat) faceplate"]
  by (simp add: faceplate_spi_init_def faceplate_reset_def)

section \<open>Results for the makefile of the kwp1281 tool\<close>

lemma glob_literal:
  "CHR ''*'' \<notin> set p \<Longrightarrow> glob_match p s = (s = p)"
  by (induction p s rule: glob_match.induct) auto

lemma glob_star_suffix:
  "CHR ''*'' \<notin> set p \<Longrightarrow> glob_match (CHR ''*'' # p) s \<Longrightarrow> \<exists>q. s = q @ p"
proof (induction s)
  case Nil
  then show ?case by (cases p) simp_all
next
  case (Cons c cs)
  from Cons.prems(2) have "glob_match p (c # cs) \<or> glob_match (CHR ''*'' # p) cs" by simp
  then show ?case
  proof
    assume "glob_match p (c # cs)"
    with Cons.prems(1) have "c # cs = p" by (simp add: glob_literal)
    then show ?thesis by simp
  next
    assume "glob_match (CHR ''*'' # p) cs"
    with Cons have "\<exists>q. cs = q @ p" by simp
    then obtain q where "cs = q @ p" ..
    then have "c # cs = (c # q) @ p" by simp
    then show ?thesis ..
  qed
qed

lemma wildcard_c_last:
  "name \<in> set (wildcard ''*.c'' dir) \<Longrightarrow> name \<in> set dir \<and> last name = CHR ''c''"
proof -
  assume "name \<in> set (wildcard ''*.c'' dir)"
  then have d: "name \<in> set dir" and g: "glob_match (CHR ''*'' # ''.c'') name"
    by (simp_all add: wildcard_def)
  from glob_star_suffix [OF _ g] obtain q where "name = q @ ''.c''" by auto
  with d show ?thesis by simp
qed

lemma split_on_not_Nil: "split_on d s \<noteq> []"
  by (induction s) (simp_all split: list.splits)

lemma split_on_word: "d \<notin> set w \<Longrightarrow> split_on d (w @ d # s) = w # split_on d s"
  by (induction w) (auto simp add: split_on_not_Nil split: list.splits)

lemma split_on_last_word: "d \<notin> set w \<Longrightarrow> split_on d w = [w]"
  by (induction w) auto

lemma words_of_unwords:
  "\<forall>w \<in> set ws. w \<noteq> [] \<and> CHR '' '' \<notin> set w \<Longrightarrow> words_of (unwords ws) = ws"
proof (induction ws rule: unwords.induct)
  case 1
  then show ?case by (simp add: words_of_def)
next
  case (2 w)
  then show ?case by (simp add: words_of_def split_on_last_word)
next
  case (3 w v vs)
  then have "words_of (unwords (v # vs)) = v # vs" by simp
  moreover have "CHR '' '' \<notin> set w" "w \<noteq> []" using 3 by simp_all
  ultimately show ?case
    by (simp add: words_of_def split_on_word)
qed

lemma make_each_sources:
  "\<forall>t \<in> set ts. find (\<lambda>r. target r = t) rules = None \<and> t \<in> set dir \<Longrightarrow>
   make_each (make_target (Suc fuel) rules dir) ts st = Inr st"
  by (induction ts) simp_all

lemma kwp1281_sources:
  assumes "\<forall>name \<in> set dir. CHR '' '' \<notin> set name"
  shows "words_of (SOURCES dir) = wildcard ''*.c'' dir"
  unfolding SOURCES_def
proof (rule words_of_unwords, rule ballI)
  fix w assume w: "w \<in> set (wildcard ''*.c'' dir)"
  then have "w \<in> set dir" and "glob_match ''*.c'' w" by (simp_all add: wildcard_def)
  then show "w \<noteq> [] \<and> CHR '' '' \<notin> set w" using assms by auto
qed

lemma kwp1281_source_no_rule:
  assumes "name \<in> set (wildcard ''*.c'' dir)"
  shows "find (\<lambda>r. target r = name) (kwp1281_Makefile dir') = None"
proof -
  from wildcard_c_last [OF assms] have "last name = CHR ''c''" ..
  then have "name \<notin> target ` set (kwp1281_Makefile dir')"
    by (auto simp add: kwp1281_Makefile_def PROJECT_def)
  then show ?thesis by (auto simp add: find_None_iff)
qed

lemma kwp1281_make_sources:
  assumes "\<forall>name \<in> set dir. CHR '' '' \<notin> set name"
  shows "make_each (make_target (Suc fuel) (kwp1281_Makefile dir) dir) (words_of (SOURCES dir)) st
           = Inr st"
proof (rule make_each_sources, rule ballI)
  fix t assume "t \<in> set (words_of (SOURCES dir))"
  then have t: "t \<in> set (wildcard ''*.c'' dir)" using kwp1281_sources [OF assms] by simp
  from kwp1281_source_no_rule [OF t] wildcard_c_last [OF t]
  show "find (\<lambda>r. target r = t) (kwp1281_Makefile dir) = None \<and> t \<in> set dir" by simp
qed

lemma kwp1281_find_elf:
  "find (\<lambda>r. target r = ''kwp1281.elf'') (kwp1281_Makefile dir) =
     Some \<lparr>target = ''kwp1281.elf'', prereqs = words_of (SOURCES dir),
           recipe = [''avr-gcc -mmcu=atmega1284 -g -Wall -Os -std=c99 -DF_CPU=20000000 -I. -o kwp1281.elf '' @
                       SOURCES dir]\<rparr>"
  by (simp add: kwp1281_Makefile_def PROJECT_def CFLAGS_def MMCU_def F_CPU_def)

lemma kwp1281_find_hex:
  "find (\<lambda>r. target r = ''kwp1281.hex'') (kwp1281_Makefile dir) =
     Some \<lparr>target = ''kwp1281.hex'', prereqs = [''kwp1281.elf''],
           recipe = [''avr-objcopy -j .text -j .data -O ihex kwp1281.elf kwp1281.hex'']\<rparr>"
  by (simp add: kwp1281_Makefile_def PROJECT_def)

lemma kwp1281_find_program:
  "find (\<lambda>r. target r = ''program'') (kwp1281_Makefile dir) =
     Some \<lparr>target = ''program'', prereqs = [''kwp1281.hex''],
           recipe =
            [''avrdude -c atmelice -p atmega1284 -U lfuse:w:0xF7:m -U hfuse:w:0x92:m -U efuse:w:0xFF:m'',
             ''avrdude -c atmelice -p atmega1284 -U flash:w:kwp1281.hex'']\<rparr>"
  by (simp add: kwp1281_Makefile_def PROJECT_def ISPFLAGS_def MMCU_def)

lemma kwp1281_make_elf:
  assumes "\<forall>name \<in> set dir. CHR '' '' \<notin> set name"
  shows "make_target (Suc (Suc fuel)) (kwp1281_Makefile dir) dir ''kwp1281.elf'' ([], []) =
     Inr ([''kwp1281.elf''],
          [''avr-gcc -mmcu=atmega1284 -g -Wall -Os -std=c99 -DF_CPU=20000000 -I. -o kwp1281.elf '' @
             SOURCES dir])"
  using kwp1281_make_sources [OF assms, of fuel "([], [])"]
  by (simp add: kwp1281_find_elf)

lemma kwp1281_make_hex:
  assumes "\<forall>name \<in> set dir. CHR '' '' \<notin> set name"
  shows "make_target (Suc (Suc (Suc fuel))) (kwp1281_Makefile dir) dir ''kwp1281.hex'' ([], []) =
     Inr ([''kwp1281.hex'', ''kwp1281.elf''],
          [''avr-gcc -mmcu=atmega1284 -g -Wall -Os -std=c99 -DF_CPU=20000000 -I. -o kwp1281.elf '' @
             SOURCES dir,
           ''avr-objcopy -j .text -j .data -O ihex kwp1281.elf kwp1281.hex''])"
  using kwp1281_make_elf [OF assms, of fuel]
  by (subst make_target.simps(2)) (simp add: kwp1281_find_hex del: make_target.simps)

lemma kwp1281_make_program:
  assumes "\<forall>name \<in> set dir. CHR '' '' \<notin> set name"
  shows "make_target (Suc (Suc (Suc (Suc fuel)))) (kwp1281_Makefile dir) dir ''program'' ([], []) =
     Inr ([''program'', ''kwp1281.hex'', ''kwp1281.elf''],
          [''avr-gcc -mmcu=atmega1284 -g -Wall -Os -std=c99 -DF_CPU=20000000 -I. -o kwp1281.elf '' @
             SOURCES dir,
           ''avr-objcopy -j .text -j .data -O ihex kwp1281.elf kwp1281.hex'',
           ''avrdude -c atmelice -p atmega1284 -U lfuse:w:0xF7:m -U hfuse:w:0x92:m -U efuse:w:0xFF:m'',
           ''avrdude -c atmelice -p atmega1284 -U flash:w:kwp1281.hex''])"
  using kwp1281_make_hex [OF assms, of fuel]
  by (subst make_target.simps(2)) (simp add: kwp1281_find_program del: make_target.simps)

lemma kwp1281_Makefile_length: "length (kwp1281_Makefile dir) = 8"
  by (simp add: kwp1281_Makefile_def)

text \<open>
  C6: the firmware build targets the ATmega1284 (\<^verbatim>\<open>MMCU\<close>); plain \<^verbatim>\<open>make\<close> makes
  \<^verbatim>\<open>kwp1281.hex\<close>, the Intel HEX image, by \<^verbatim>\<open>avr-gcc\<close> for that microcontroller
  followed by \<^verbatim>\<open>avr-objcopy -O ihex\<close>; \<^verbatim>\<open>make program\<close> builds the image, then
  runs \<^verbatim>\<open>avrdude\<close> to write the fuses lfuse 0xF7, hfuse 0x92, efuse 0xFF, then runs
  \<^verbatim>\<open>avrdude\<close> to flash the image. This holds in every directory whose file names
  have no space.
\<close>

theorem kwp1281_build_and_program:
  assumes "\<forall>name \<in> set dir. CHR '' '' \<notin> set name"
  shows "MMCU = ''atmega1284'' \<and>
    default_goal (kwp1281_Makefile dir) = ''kwp1281.hex'' \<and>
    make (kwp1281_Makefile dir) dir ''kwp1281.hex'' =
      Inr [''avr-gcc -mmcu=atmega1284 -g -Wall -Os -std=c99 -DF_CPU=20000000 -I. -o kwp1281.elf '' @
             unwords (wildcard ''*.c'' dir),
           ''avr-objcopy -j .text -j .data -O ihex kwp1281.elf kwp1281.hex''] \<and>
    make (kwp1281_Makefile dir) dir ''program'' =
      Inr [''avr-gcc -mmcu=atmega1284 -g -Wall -Os -std=c99 -DF_CPU=20000000 -I. -o kwp1281.elf '' @
             unwords (wildcard ''*.c'' dir),
           ''avr-objcopy -j .text -j .data -O ihex kwp1281.elf kwp1281.hex'',
           ''avrdude -c atmelice -p atmega1284 -U lfuse:w:0xF7:m -U hfuse:w:0x92:m -U efuse:w:0xFF:m'',
           ''avrdude -c atmelice -p atmega1284 -U flash:w:kwp1281.hex'']"
proof -
  have fuel: "Suc (length (kwp1281_Makefile dir)) = Suc (Suc (Suc (Suc 5)))"
    by (simp add: kwp1281_Makefile_length)
  have goal: "default_goal (kwp1281_Makefile dir) = ''kwp1281.hex''"
    by (simp add: default_goal_def kwp1281_Makefile_def PROJECT_def)
  have hex: "make (kwp1281_Makefile dir) dir ''kwp1281.hex'' =
      Inr [''avr-gcc -mmcu=atmega1284 -g -Wall -Os -std=c99 -DF_CPU=20000000 -I. -o kwp1281.elf '' @
             unwords (wildcard ''*.c'' dir),
           ''avr-objcopy -j .text -j .data -O ihex kwp1281.elf kwp1281.hex'']"
    unfolding make_def fuel
    by (simp only: kwp1281_make_hex [OF assms] sum.case snd_conv SOURCES_def)
  have program: "make (kwp1281_Makefile dir) dir ''program'' =
      Inr [''avr-gcc -mmcu=atmega1284 -g -Wall -Os -std=c99 -DF_CPU=20000000 -I. -o kwp1281.elf '' @
             unwords (wildcard ''*.c'' dir),
           ''avr-objcopy -j .text -j .data -O ihex kwp1281.elf kwp1281.hex'',
           ''avrdude -c atmelice -p atmega1284 -U lfuse:w:0xF7:m -U hfuse:w:0x92:m -U efuse:w:0xFF:m'',
           ''avrdude -c atmelice -p atmega1284 -U flash:w:kwp1281.hex'']"
    unfolding make_def fuel
    by (simp only: kwp1281_make_program [OF assms] sum.case snd_conv SOURCES_def)
  from goal hex program show ?thesis by (simp add: MMCU_def)
qed

theorem kwp1281_build_and_program_witness:
  "make (kwp1281_Makefile [''main.c'', ''kwp1281.c'', ''README.md'']) [''main.c'', ''kwp1281.c'', ''README.md''] ''program'' =
      Inr [''avr-gcc -mmcu=atmega1284 -g -Wall -Os -std=c99 -DF_CPU=20000000 -I. -o kwp1281.elf main.c kwp1281.c'',
           ''avr-objcopy -j .text -j .data -O ihex kwp1281.elf kwp1281.hex'',
           ''avrdude -c atmelice -p atmega1284 -U lfuse:w:0xF7:m -U hfuse:w:0x92:m -U efuse:w:0xFF:m'',
           ''avrdude -c atmelice -p atmega1284 -U flash:w:kwp1281.hex'']"
proof -
  have h: "\<forall>name \<in> set [''main.c'', ''kwp1281.c'', ''README.md'']. CHR '' '' \<notin> set name"
    by simp
  from kwp1281_build_and_program [OF h] show ?thesis
    by (simp add: wildcard_def hidden_def)
qed

text \<open>
  C7: the makefile has a rule for each of the six targets \<^verbatim>\<open>program\<close>, \<^verbatim>\<open>size\<close>,
  \<^verbatim>\<open>dump\<close>, \<^verbatim>\<open>clean\<close>, \<^verbatim>\<open>arduino_mega\<close> and \<^verbatim>\<open>all\<close>, and every command
  line of every rule's recipe runs one of the toolchain's binaries (\<^verbatim>\<open>avr-gcc\<close>,
  \<^verbatim>\<open>avr-objcopy\<close>, \<^verbatim>\<open>avr-size\<close>, \<^verbatim>\<open>avr-objdump\<close>, \<^verbatim>\<open>avrdude\<close>,
  \<^verbatim>\<open>find\<close>).
\<close>

theorem kwp1281_rules_are_tool_calls:
  "(\<forall>t \<in> set [''program'', ''size'', ''dump'', ''clean'', ''arduino_mega'', ''all''].
      t \<in> target ` set (kwp1281_Makefile dir)) \<and>
   (\<forall>r \<in> set (kwp1281_Makefile dir). \<forall>line \<in> set (recipe r).
      command_name line \<in> set toolchain)"
  by (simp add: kwp1281_Makefile_def command_name_def toolchain_def PROJECT_def)

theorem kwp1281_rules_are_tool_calls_witness:
  "''arduino_mega'' \<in> target ` set (kwp1281_Makefile [''main.c'']) \<and>
   map command_name (recipe (kwp1281_Makefile [''main.c''] ! 6)) =
     [''avr-gcc'', ''avr-objcopy'', ''avrdude''] \<and>
   command_name (hd (recipe (kwp1281_Makefile [''main.c''] ! 6))) \<in> set toolchain"
  using kwp1281_rules_are_tool_calls [of "[''main.c'']"]
  by (simp add: kwp1281_Makefile_def command_name_def toolchain_def PROJECT_def)

section \<open>Results for the makefiles that check a disassembly\<close>

lemma hex_digit_in: "hex_digit n \<in> set ''0123456789abcdef''"
  unfolding hex_digit_def by (rule nth_mem) simp

lemma hex_of_chars: "c \<in> set (hex_of d) \<Longrightarrow> c \<in> set ''0123456789abcdef''"
  unfolding hex_of_def hex_byte_def using hex_digit_in by auto

lemma hex_of_no_space: "CHR '' '' \<notin> set (hex_of d)"
  using hex_of_chars [of "CHR '' ''" d] by auto

lemma hex_of_no_newline: "newline \<notin> set (hex_of d)"
  using hex_of_chars [of newline d] by (auto simp add: newline_def)

lemma hex_digit_inj: "m < 16 \<Longrightarrow> n < 16 \<Longrightarrow> hex_digit m = hex_digit n \<Longrightarrow> m = n"
  unfolding hex_digit_def
  by (subst (asm) nth_eq_iff_index_eq) simp_all

lemma hex_byte_inj: "hex_byte a = hex_byte b \<Longrightarrow> a = b"
proof -
  assume h: "hex_byte a = hex_byte b"
  have a: "unat a < 256" and b: "unat b < 256"
    using unsigned_less [of a, where ?'a = nat] unsigned_less [of b, where ?'a = nat] by simp_all
  from h have "hex_digit (unat a div 16) = hex_digit (unat b div 16)"
    and "hex_digit (unat a mod 16) = hex_digit (unat b mod 16)"
    by (simp_all add: hex_byte_def)
  with a b have "unat a div 16 = unat b div 16" and "unat a mod 16 = unat b mod 16"
    by (auto intro!: hex_digit_inj)
  then have "unat a = unat b" by (metis div_mult_mod_eq)
  then show "a = b" by (simp add: word_unat_eq_iff)
qed

lemma hex_of_inj: "hex_of d = hex_of e \<Longrightarrow> d = e"
proof (induction d arbitrary: e)
  case Nil
  then show ?case by (cases e) (simp_all add: hex_of_def hex_byte_def)
next
  case (Cons a d)
  then obtain b e' where e: "e = b # e'"
    by (cases e) (simp_all add: hex_of_def hex_byte_def)
  with Cons.prems have "hex_byte a = hex_byte b" and "hex_of d = hex_of e'"
    by (simp_all add: hex_of_def hex_byte_def)
  with Cons.IH e show ?case by (simp add: hex_byte_inj)
qed

lemma digest_text_inj: "(digest_text d = digest_text e) = (d = e)"
  by (auto simp add: digest_text_def dest: hex_of_inj)

lemma lines_of_digest: "lines_of (''SHA1(out.bin)= '' @ hex_of d @ [newline]) = [''SHA1(out.bin)= '' @ hex_of d]"
proof -
  have "newline \<notin> set (''SHA1(out.bin)= '' @ hex_of d)"
    using hex_of_no_newline [of d] by (simp add: newline_def)
  from split_on_word [OF this, of "[]"] show ?thesis
    by (simp add: lines_of_def)
qed

lemma cut_field_digest: "cut_field CHR '' '' 2 (''SHA1(out.bin)= '' @ hex_of d) = hex_of d"
proof -
  have "split_on CHR '' '' (''SHA1(out.bin)='' @ CHR '' '' # hex_of d) =
          [''SHA1(out.bin)='', hex_of d]"
    by (subst split_on_word) (simp_all add: split_on_last_word hex_of_no_space)
  then show ?thesis by (simp add: cut_field_def)
qed

lemma digest_pipeline:
  "fs ''out.bin'' = Some b \<Longrightarrow>
   pipe (openssl_sha1 sha1 ''out.bin'') (cut_d_f CHR '' '' 2) fs input = (0, digest_text (sha1 b))"
  using lines_of_digest [of "sha1 b"] cut_field_digest [of "sha1 b"]
  by (simp add: pipe_def openssl_sha1_def cut_d_f_def digest_text_def)

lemma digest_line:
  "fs ''out.bin'' = Some b \<Longrightarrow>
   redirect (pipe (openssl_sha1 sha1 ''out.bin'') (cut_d_f CHR '' '' 2)) ''out.sha1'' fs =
     (0, fs(''out.sha1'' \<mapsto> digest_text (sha1 b)))"
  by (simp add: redirect_def digest_pipeline)

lemma mainmcu_diff_status:
  assumes "fs ''out.bin'' = Some b"
  shows "(fst (run_recipe (mainmcu_diff sha1) fs) = 0) =
         (fs ''pu1666a_mainmcu.sha1'' = Some (digest_text (sha1 b)))"
  by (cases "fs ''pu1666a_mainmcu.sha1''")
    (simp_all add: mainmcu_diff_def digest_line [of fs b sha1, OF assms] diff_files_def)

lemma software23_diff_status:
  assumes "checksum_py fs = (status, fs')" and "fs' ''out.bin'' = Some b"
  shows "(fst (run_recipe (software23_diff sha1 checksum_py) fs) = 0) =
         (status = 0 \<and> fs' ''software23.sha1'' = Some (digest_text (sha1 b)))"
  by (cases "fs' ''software23.sha1''")
    (simp_all add: software23_diff_def assms(1) digest_line [of fs' b sha1, OF assms(2)] diff_files_def)

text \<open>
  C8, as amended: with \<^verbatim>\<open>out.bin\<close> made, the \<^verbatim>\<open>diff\<close> target of the first
  makefile succeeds (status zero) if and only if \<^verbatim>\<open>pu1666a_mainmcu.sha1\<close> exists and
  holds the SHA-1 digest of \<^verbatim>\<open>out.bin\<close> as the pipeline writes it. The
  \<^verbatim>\<open>diff\<close> target of the second makefile succeeds if and only if
  \<^verbatim>\<open>python checksum.py out.bin\<close> exits with status zero and
  \<^verbatim>\<open>software23.sha1\<close> holds the digest of \<^verbatim>\<open>out.bin\<close> as the script leaves it. Two
  digests have the same text only when they are equal.
\<close>

theorem diff_target_checks_digest:
  "(fs ''out.bin'' = Some b \<longrightarrow>
      (fst (run_recipe (mainmcu_diff sha1) fs) = 0) =
        (fs ''pu1666a_mainmcu.sha1'' = Some (digest_text (sha1 b)))) \<and>
   (checksum_py fs = (status, fs') \<and> fs' ''out.bin'' = Some b' \<longrightarrow>
      (fst (run_recipe (software23_diff sha1 checksum_py) fs) = 0) =
        (status = 0 \<and> fs' ''software23.sha1'' = Some (digest_text (sha1 b')))) \<and>
   ((digest_text d = digest_text e) = (d = e))"
  using mainmcu_diff_status [of fs b sha1] software23_diff_status [of checksum_py fs status fs' b' sha1]
    digest_text_inj [of d e]
  by simp

lemma example_digest:
  "digest_text (toy_sha1 []) = ''00abcd'' @ [newline]"
  by (simp add: digest_text_def toy_sha1_def hex_of_def hex_byte_def hex_digit_def)

theorem diff_target_checks_digest_witness:
  "fst (run_recipe (mainmcu_diff toy_sha1) example_files) = 0 \<and>
   fst (run_recipe (software23_diff toy_sha1 checksum_passes) example_files) = 0"
proof -
  have bin: "example_files ''out.bin'' = Some []"
    and g1: "example_files ''pu1666a_mainmcu.sha1'' = Some (digest_text (toy_sha1 []))"
    and g2: "example_files ''software23.sha1'' = Some (digest_text (toy_sha1 []))"
    and ok: "checksum_passes example_files = (0, example_files)"
    by (simp_all add: example_files_def example_digest checksum_passes_def)
  from diff_target_checks_digest
    [of example_files "[]" toy_sha1 checksum_passes 0 example_files "[]"]
  show ?thesis using bin g1 g2 ok by simp
qed

text \<open>
  C8 as first stated, without the script's status, fails on the second makefile: with
  the recorded digest equal to the digest of \<^verbatim>\<open>out.bin\<close>, the target still
  fails when \<^verbatim>\<open>checksum.py\<close> fails.
\<close>

theorem software23_diff_counterexample:
  "example_files ''out.bin'' = Some [] \<and>
   example_files ''software23.sha1'' = Some (digest_text (toy_sha1 [])) \<and>
   fst (run_recipe (software23_diff toy_sha1 checksum_fails) example_files) \<noteq> 0"
  by (simp add: example_files_def example_digest software23_diff_def checksum_fails_def)

lemma glob_star: "glob_match ''*'' s"
  by (induction s) simp_all

lemma glob_out: "glob_match ''out.*'' name = (take 4 name = ''out.'')"
proof (cases name)
  case Nil
  then show ?thesis by simp
next
  case n1: (Cons a as)
  show ?thesis
  proof (cases as)
    case Nil
    with n1 show ?thesis by simp
  next
    case n2: (Cons b bs)
    show ?thesis
    proof (cases bs)
      case Nil
      with n1 n2 show ?thesis by simp
    next
      case n3: (Cons c cs)
      show ?thesis
      proof (cases cs)
        case Nil
        with n1 n2 n3 show ?thesis by simp
      next
        case (Cons d ds)
        with n1 n2 n3 glob_star [of ds] show ?thesis
          by (cases ds) auto
      qed
    qed
  qed
qed

text \<open>
  C9: in both makefiles \<^verbatim>\<open>clean\<close> succeeds, removes exactly the files whose names
  match \<^verbatim>\<open>out.*\<close> (the names that start with \<^verbatim>\<open>out.\<close>) and leaves every other
  file as it was; the assembly sources and the recorded digests are unchanged.
\<close>

theorem clean_removes_only_out_files:
  "fst (run_recipe mainmcu_clean fs) = 0 \<and>
   fst (run_recipe software23_clean fs) = 0 \<and>
   snd (run_recipe mainmcu_clean fs) name =
     (if glob_match ''out.*'' name then None else fs name) \<and>
   snd (run_recipe software23_clean fs) name =
     (if glob_match ''out.*'' name then None else fs name) \<and>
   glob_match ''out.*'' name = (take 4 name = ''out.'') \<and>
   snd (run_recipe mainmcu_clean fs) ''pu1666a_mainmcu.asm'' = fs ''pu1666a_mainmcu.asm'' \<and>
   snd (run_recipe mainmcu_clean fs) ''pu1666a_mainmcu.sha1'' = fs ''pu1666a_mainmcu.sha1'' \<and>
   snd (run_recipe software23_clean fs) ''software23.asm'' = fs ''software23.asm'' \<and>
   snd (run_recipe software23_clean fs) ''software23.sha1'' = fs ''software23.sha1''"
  by (simp add: mainmcu_clean_def software23_clean_def rm_f_def glob_out)

theorem clean_removes_only_out_files_witness:
  "snd (run_recipe mainmcu_clean example_files) ''out.bin'' = None \<and>
   snd (run_recipe mainmcu_clean example_files) ''out.lst'' = None \<and>
   snd (run_recipe mainmcu_clean example_files) ''pu1666a_mainmcu.asm'' = Some ''source'' \<and>
   snd (run_recipe software23_clean example_files) ''software23.asm'' = Some ''source''"
  using clean_removes_only_out_files [of example_files "''out.bin''"]
    clean_removes_only_out_files [of example_files "''out.lst''"]
  by (simp add: example_files_def)

end
